theory Spec2Isabelle
  imports Complex_Main "HOL-Library.Sublist"
begin

section \<open>Shared building blocks\<close>

text \<open>
  \<^verbatim>\<open>std::map::operator[]\<close>: the lookup that both the policy table and the user
  table go through. It is not a read-only operation: a key that is absent is inserted
  with a value-initialised entry, and the reference to that entry is returned. The model
  returns the entry together with the table as it is after the call.
\<close>

definition map_subscript :: "('k \<rightharpoonup> 'v) \<Rightarrow> 'v \<Rightarrow> 'k \<Rightarrow> 'v \<times> ('k \<rightharpoonup> 'v)" where
  "map_subscript m dflt k =
     (case m k of Some v \<Rightarrow> (v, m) | None \<Rightarrow> (dflt, m(k \<mapsto> dflt)))"

text \<open>
  \<^verbatim>\<open>std::string::find(needle)\<close> from position 0: the index of the first occurrence,
  or no index (\<^verbatim>\<open>npos\<close>).
\<close>

fun find_from :: "string \<Rightarrow> string \<Rightarrow> nat \<Rightarrow> nat option" where
  "find_from [] needle i = (if needle = [] then Some i else None)"
| "find_from (c # cs) needle i =
     (if prefix needle (c # cs) then Some i else find_from cs needle (Suc i))"

definition string_find :: "string \<Rightarrow> string \<Rightarrow> nat option" where
  "string_find hay needle = find_from hay needle 0"

section \<open>The connectivity simulator (intelligent\_connectivity\_prototype.cpp)\<close>

record NetworkPolicy =
  securityLevel :: string
  requirePIN :: bool
  dataLimit :: int
  connectionType :: string

text \<open>The members of \<^verbatim>\<open>IntelligentConnectivitySim\<close>.\<close>

record ConnectivitySim =
  trustedDevices :: "string list"
  policyRules :: "string \<rightharpoonup> NetworkPolicy"

text \<open>A value-initialised \<^verbatim>\<open>NetworkPolicy\<close>, what \<^verbatim>\<open>operator[]\<close> inserts.\<close>

definition NetworkPolicy_default :: NetworkPolicy where
  "NetworkPolicy_default =
     \<lparr>securityLevel = '''', requirePIN = False, dataLimit = 0, connectionType = ''''\<rparr>"

definition initializePolicies :: "ConnectivitySim \<Rightarrow> ConnectivitySim" where
  "initializePolicies s =
     (let r0 = policyRules s;
          r1 = r0(''home_trusted'' \<mapsto>
                 \<lparr>securityLevel = ''LOW'', requirePIN = False, dataLimit = 1000,
                  connectionType = ''FULL_ACCESS''\<rparr>);
          r2 = r1(''public_trusted'' \<mapsto>
                 \<lparr>securityLevel = ''MEDIUM'', requirePIN = True, dataLimit = 500,
                  connectionType = ''LIMITED_ACCESS''\<rparr>);
          r3 = r2(''untrusted'' \<mapsto>
                 \<lparr>securityLevel = ''HIGH'', requirePIN = True, dataLimit = 100,
                  connectionType = ''RESTRICTED''\<rparr>);
          r4 = r3(''emergency'' \<mapsto>
                 \<lparr>securityLevel = ''CRITICAL'', requirePIN = True, dataLimit = 50,
                  connectionType = ''EMERGENCY_ONLY''\<rparr>)
      in s\<lparr>policyRules := r4\<rparr>)"

definition initializeTrustedDevices :: "ConnectivitySim \<Rightarrow> ConnectivitySim" where
  "initializeTrustedDevices s =
     s\<lparr>trustedDevices := [''home_wifi'', ''office_bt'', ''car_system'', ''personal_tablet'']\<rparr>"

text \<open>The constructor: both members start empty and the two initialisers run in order.\<close>

definition IntelligentConnectivitySim :: ConnectivitySim where
  "IntelligentConnectivitySim =
     initializeTrustedDevices (initializePolicies \<lparr>trustedDevices = [], policyRules = Map.empty\<rparr>)"

text \<open>
  \<^verbatim>\<open>applyPolicy\<close> reads the table with \<^verbatim>\<open>policyRules[trustLevel]\<close>, prints the four
  fields and returns the policy by value. The location argument is not used. The model
  returns the policy and the simulator as the subscript leaves it.
\<close>

definition applyPolicy :: "ConnectivitySim \<Rightarrow> string \<Rightarrow> string \<Rightarrow> NetworkPolicy \<times> ConnectivitySim" where
  "applyPolicy s trustLevel location =
     (let (policy, rules) = map_subscript (policyRules s) NetworkPolicy_default trustLevel
      in (policy, s\<lparr>policyRules := rules\<rparr>))"

text \<open>
  The counter of \<^verbatim>\<open>evaluateTrustLevel\<close> is a C++ \<^verbatim>\<open>int\<close> (32 bits on the platforms
  the program is built for). Incrementing it at \<^verbatim>\<open>INT_MAX\<close> is undefined behaviour; the
  model stops there with a fault instead of inventing a value.
\<close>

datatype fault = SignedOverflow

definition INT_MAX :: int where
  "INT_MAX = 2147483647"

text \<open>
  The inner loop: the device is compared with the trusted devices in order; the first
  equal one increments the counter and leaves the loop.
\<close>

fun matchTrusted :: "string \<Rightarrow> string list \<Rightarrow> int \<Rightarrow> fault + int" where
  "matchTrusted device [] trustedCount = Inr trustedCount"
| "matchTrusted device (trusted # rest) trustedCount =
     (if device = trusted
      then (if trustedCount = INT_MAX then Inl SignedOverflow else Inr (trustedCount + 1))
      else matchTrusted device rest trustedCount)"

text \<open>The outer loop over the nearby devices.\<close>

fun countTrusted :: "string list \<Rightarrow> string list \<Rightarrow> int \<Rightarrow> fault + int" where
  "countTrusted [] trusted trustedCount = Inr trustedCount"
| "countTrusted (device # devices) trusted trustedCount =
     (case matchTrusted device trusted trustedCount of
        Inl e \<Rightarrow> Inl e
      | Inr c \<Rightarrow> countTrusted devices trusted c)"

definition evaluateTrustLevel :: "ConnectivitySim \<Rightarrow> string list \<Rightarrow> string \<Rightarrow> fault + string" where
  "evaluateTrustLevel s devices location =
     (case countTrusted devices (trustedDevices s) 0 of
        Inl e \<Rightarrow> Inl e
      | Inr trustedCount \<Rightarrow>
          Inr (if location = ''Home'' \<and> trustedCount \<ge> 2 then ''home_trusted''
               else if location = ''Office'' \<and> trustedCount \<ge> 1 then ''public_trusted''
               else if trustedCount \<ge> 1 then ''public_trusted''
               else if location = ''Rural Area'' then ''emergency''
               else ''untrusted''))"

text \<open>
  One printed decision line of \<^verbatim>\<open>makeConnectivityDecisions\<close>: the label before the
  colon, the network name, and the parenthesised remark after it (empty where the line
  has none). The pictograph in front of the label is not modelled.
\<close>

datatype decision = Decision (dlabel: string) (dnetwork: string) (dremark: string)

definition classify :: "NetworkPolicy \<Rightarrow> string \<Rightarrow> decision" where
  "classify policy network =
     (if securityLevel policy = ''LOW'' then Decision ''FULL'' network ''trusted''
      else if securityLevel policy = ''MEDIUM'' then
        (if string_find network ''Secure'' \<noteq> None \<or> string_find network ''Office'' \<noteq> None
         then Decision ''LIMITED'' network ''secured''
         else Decision ''AVOID'' network ''unsecured'')
      else if securityLevel policy = ''HIGH'' then
        (if network = ''Cellular_Data'' then Decision ''RESTRICTED'' network ''cellular''
         else Decision ''BLOCKED'' network ''untrusted'')
      else
        (if network = ''Cellular_Data'' then Decision ''EMERGENCY'' network ''minimal''
         else Decision ''BLOCKED'' network []))"

text \<open>The loop over the networks; \<open>classify\<close> is its body.\<close>

fun makeConnectivityDecisions :: "string list \<Rightarrow> NetworkPolicy \<Rightarrow> decision list" where
  "makeConnectivityDecisions [] policy = []"
| "makeConnectivityDecisions (network # networks) policy =
     classify policy network # makeConnectivityDecisions networks policy"

definition scanNetworks :: "string \<Rightarrow> string list" where
  "scanNetworks location =
     (if location = ''Home'' then [''Home_WiFi_5G'', ''Home_WiFi_2G'', ''Neighbor_WiFi'']
      else if location = ''Office'' then [''Office_Secure'', ''Office_Guest'', ''Conference_Room'']
      else if location = ''Public Cafe'' then [''Cafe_Free_WiFi'', ''Cafe_Premium'', ''Public_Hotspot'']
      else if location = ''Shopping Mall'' then [''Mall_Free'', ''Store_WiFi'', ''FoodCourt_Network'']
      else if location = ''Airport'' then [''Airport_Free'', ''Airport_Premium'', ''Airline_Lounge'']
      else [''Cellular_4G'', ''Cellular_3G''])
     @ [''Cellular_Data'']"

text \<open>
  \<^verbatim>\<open>scanDevices\<close> builds its own random generator on every call and draws integers
  between 0 and 3 from it. The argument \<open>dis\<close> is the sequence of values this call's
  generator yields: \<open>dis 0\<close> is the first draw, \<open>dis 1\<close> the second, and so on.
\<close>

definition scanDevices :: "string \<Rightarrow> (nat \<Rightarrow> int) \<Rightarrow> string list" where
  "scanDevices location dis =
     (let (devices, n) =
            (if location = ''Home''
             then ([''home_wifi'', ''smart_tv''] @ (if dis 0 > 1 then [''car_system''] else []), 1::nat)
             else if location = ''Office''
             then ([''office_bt''] @ (if dis 0 > 1 then [''printer_01''] else []), 1)
             else ([], 0));
          devices = devices @ (if dis n > 0 then [''unknown_device_1''] else []);
          devices = devices @ (if dis (n + 1) > 1 then [''strange_bt_device''] else [])
      in devices)"

text \<open>
  \<^verbatim>\<open>testEnvironment\<close>: scan, evaluate the trust level, apply the policy, decide per
  network. The result is the list of decision lines and the simulator afterwards. The
  timing lines are not modelled.
\<close>

definition testEnvironment ::
  "ConnectivitySim \<Rightarrow> string \<Rightarrow> (nat \<Rightarrow> int) \<Rightarrow> fault + (decision list \<times> ConnectivitySim)" where
  "testEnvironment s location dis =
     (let availableNetworks = scanNetworks location;
          nearbyDevices = scanDevices location dis
      in case evaluateTrustLevel s nearbyDevices location of
           Inl e \<Rightarrow> Inl e
         | Inr trustLevel \<Rightarrow>
             (let (policy, s') = applyPolicy s trustLevel location
              in Inr (makeConnectivityDecisions availableNetworks policy, s')))"

text \<open>
  \<^verbatim>\<open>testMultipleScenarios\<close>: \<^verbatim>\<open>testEnvironment\<close> for each of the six scenarios in
  order, on the simulator the previous one left. Every scan has its own generator:
  \<open>dis i\<close> is the draw sequence of the scan in scenario number \<open>i\<close>.
\<close>

fun scenarioLoop ::
  "ConnectivitySim \<Rightarrow> string list \<Rightarrow> (nat \<Rightarrow> nat \<Rightarrow> int) \<Rightarrow> nat
     \<Rightarrow> fault + (decision list list \<times> ConnectivitySim)" where
  "scenarioLoop s [] dis i = Inr ([], s)"
| "scenarioLoop s (scenario # rest) dis i =
     (case testEnvironment s scenario (dis i) of
        Inl e \<Rightarrow> Inl e
      | Inr (lines, s') \<Rightarrow>
          (case scenarioLoop s' rest dis (Suc i) of
             Inl e \<Rightarrow> Inl e
           | Inr (others, s'') \<Rightarrow> Inr (lines # others, s'')))"

definition testMultipleScenarios ::
  "ConnectivitySim \<Rightarrow> (nat \<Rightarrow> nat \<Rightarrow> int) \<Rightarrow> fault + (decision list list \<times> ConnectivitySim)" where
  "testMultipleScenarios s dis =
     scenarioLoop s
       [''Home'', ''Office'', ''Public Cafe'', ''Shopping Mall'', ''Airport'', ''Rural Area'']
       dis 0"

section \<open>The biometric simulator\<close>

record UserProfile =
  voicePrintHash :: string
  pin :: string
  profileTrustedDevices :: "string list"
    \<comment> \<open>the member \<^verbatim>\<open>trustedDevices\<close> of the struct; the connectivity simulator has a
        member of the same name\<close>

text \<open>The members of \<^verbatim>\<open>BiometricSecuritySim\<close>.\<close>

record BiometricSecuritySim =
  userDatabase :: "string \<rightharpoonup> UserProfile"
  nearbyDevices :: "string list"

definition UserProfile_default :: UserProfile where
  "UserProfile_default = \<lparr>voicePrintHash = [], pin = [], profileTrustedDevices = []\<rparr>"

definition initializeUserDatabase :: "BiometricSecuritySim \<Rightarrow> BiometricSecuritySim" where
  "initializeUserDatabase s =
     (let user1 = \<lparr>voicePrintHash = ''voice_hash_1234'', pin = ''5678'',
                   profileTrustedDevices = [''home_bt'', ''car_bt'']\<rparr>;
          user2 = \<lparr>voicePrintHash = ''voice_hash_5678'', pin = ''1234'',
                   profileTrustedDevices = [''office_wifi'']\<rparr>;
          user3 = \<lparr>voicePrintHash = ''voice_hash_9012'', pin = ''4321'',
                   profileTrustedDevices = [''home_bt'', ''personal_device'']\<rparr>;
          d0 = userDatabase s;
          d1 = d0(''thabo'' \<mapsto> user1);
          d2 = d1(''matseliso'' \<mapsto> user2);
          d3 = d2(''ntate_john'' \<mapsto> user3)
      in s\<lparr>userDatabase := d3\<rparr>)"

definition BiometricSecuritySim :: BiometricSecuritySim where
  "BiometricSecuritySim =
     initializeUserDatabase \<lparr>userDatabase = Map.empty, nearbyDevices = []\<rparr>"

definition scanNearbyDevices :: "BiometricSecuritySim \<Rightarrow> BiometricSecuritySim" where
  "scanNearbyDevices s =
     s\<lparr>nearbyDevices := [''home_bt'', ''unknown_device'', ''office_wifi'', ''car_bt'']\<rparr>"

text \<open>
  \<^verbatim>\<open>authenticateVoice\<close> and \<^verbatim>\<open>verifyPIN\<close> each build a fresh random generator, draw
  one number and compare it with a constant; their string argument is not used. The
  model takes the run's sequence of such outcomes as \<open>coin\<close>: \<open>coin k\<close> is the answer of
  the check that is the \<open>k\<close>-th one performed. A check returns its answer and the number
  of checks performed so far, so that a check that is not invoked leaves the number as
  it was.
\<close>

definition authenticateVoice :: "(nat \<Rightarrow> bool) \<Rightarrow> nat \<Rightarrow> string \<Rightarrow> bool \<times> nat" where
  "authenticateVoice coin k storedVoicePrint = (coin k, Suc k)"

definition verifyPIN :: "(nat \<Rightarrow> bool) \<Rightarrow> nat \<Rightarrow> string \<Rightarrow> bool \<times> nat" where
  "verifyPIN coin k correctPIN = (coin k, Suc k)"

text \<open>The inner loop of \<^verbatim>\<open>isTrustedEnvironment\<close>: one trusted device against the nearby ones.\<close>

fun nearbyMatch :: "string \<Rightarrow> string list \<Rightarrow> bool" where
  "nearbyMatch trustedDevice [] = False"
| "nearbyMatch trustedDevice (nearbyDevice # rest) =
     (if trustedDevice = nearbyDevice then True else nearbyMatch trustedDevice rest)"

text \<open>The outer loop, over the trusted devices of the profile.\<close>

fun trustedLoop :: "string list \<Rightarrow> string list \<Rightarrow> bool" where
  "trustedLoop [] nearby = False"
| "trustedLoop (trustedDevice # rest) nearby =
     (if nearbyMatch trustedDevice nearby then True else trustedLoop rest nearby)"

definition isTrustedEnvironment :: "BiometricSecuritySim \<Rightarrow> UserProfile \<Rightarrow> bool" where
  "isTrustedEnvironment s profile = trustedLoop (profileTrustedDevices profile) (nearbyDevices s)"

text \<open>
  What one call of \<^verbatim>\<open>authenticateUser\<close> prints: either the not-found message, or the
  report line with the user, success or failure, the method and the context remark.
  The elapsed time and the slow-authentication warning are not modelled.
\<close>

datatype auth_report =
    UserNotFound string
  | AuthReport (reportUser: string) (authenticated: bool) (authMethod: string) (contextInfo: string)

text \<open>
  \<^verbatim>\<open>authenticateUser\<close>. The profile is read with \<^verbatim>\<open>userDatabase[userId]\<close> after the
  \<^verbatim>\<open>find\<close> guard. The result is the report, the simulator afterwards and the number of
  random checks performed so far.
\<close>

definition authenticateUser ::
  "(nat \<Rightarrow> bool) \<Rightarrow> BiometricSecuritySim \<Rightarrow> nat \<Rightarrow> string \<Rightarrow> auth_report \<times> BiometricSecuritySim \<times> nat" where
  "authenticateUser coin s k userId =
     (if userDatabase s userId = None then (UserNotFound userId, s, k)
      else
        (let (profile, db) = map_subscript (userDatabase s) UserProfile_default userId;
             s1 = s\<lparr>userDatabase := db\<rparr>;
             (voiceAuth, k1) = authenticateVoice coin k (voicePrintHash profile);
             trustedEnvironment = isTrustedEnvironment s1 profile
         in if voiceAuth \<and> trustedEnvironment
            then (AuthReport userId True ''Voice'' '' (Trusted Environment)'', s1, k1)
            else if voiceAuth
            then (AuthReport userId True ''Voice'' [], s1, k1)
            else (let (verified, k2) = verifyPIN coin k1 (pin profile)
                  in (AuthReport userId verified ''PIN'' [], s1, k2))))"

text \<open>\<^verbatim>\<open>testUserAuthentication\<close>: one scan, then the four requests in order.\<close>

definition testUserAuthentication ::
  "(nat \<Rightarrow> bool) \<Rightarrow> BiometricSecuritySim \<Rightarrow> nat \<Rightarrow> auth_report list \<times> BiometricSecuritySim \<times> nat" where
  "testUserAuthentication coin s k =
     (let s0 = scanNearbyDevices s;
          (r1, s1, k1) = authenticateUser coin s0 k ''thabo'';
          (r2, s2, k2) = authenticateUser coin s1 k1 ''matseliso'';
          (r3, s3, k3) = authenticateUser coin s2 k2 ''ntate_john'';
          (r4, s4, k4) = authenticateUser coin s3 k3 ''unknown_user''
      in ([r1, r2, r3, r4], s4, k4))"

section \<open>The voice simulator\<close>

text \<open>
  The program computes on \<^verbatim>\<open>float\<close>. The model does not fix what a float is: it takes
  the type \<open>'f\<close> and the operations the program uses on it as a parameter, so that what
  is proved holds for whatever these operations do (rounding, infinities, not-a-number).
\<close>

record 'f float_ops =
  f_zero :: 'f                        \<comment> \<open>the literal \<^verbatim>\<open>0.0f\<close>\<close>
  f_tenth :: 'f                       \<comment> \<open>the literal \<^verbatim>\<open>0.1f\<close>\<close>
  f_threshold :: 'f                   \<comment> \<open>the literal \<^verbatim>\<open>0.85f\<close>\<close>
  f_of_int :: "int \<Rightarrow> 'f"             \<comment> \<open>conversion of an \<^verbatim>\<open>int\<close>\<close>
  f_of_size :: "nat \<Rightarrow> 'f"            \<comment> \<open>conversion of a \<^verbatim>\<open>size_t\<close>\<close>
  f_add :: "'f \<Rightarrow> 'f \<Rightarrow> 'f"
  f_mul :: "'f \<Rightarrow> 'f \<Rightarrow> 'f"
  f_abs :: "'f \<Rightarrow> 'f"
  f_div :: "'f \<Rightarrow> 'f \<Rightarrow> 'f"
  f_gt :: "'f \<Rightarrow> 'f \<Rightarrow> bool"       \<comment> \<open>the comparison \<^verbatim>\<open>>\<close>\<close>

text \<open>
  One admissible parameter, used to run the model on concrete inputs: exact arithmetic on
  the reals. It is not a model of binary floating point.
\<close>

definition exact_ops :: "real float_ops" where
  "exact_ops =
     \<lparr>f_zero = 0, f_tenth = 1 / 10, f_threshold = 85 / 100,
      f_of_int = real_of_int, f_of_size = real,
      f_add = (+), f_mul = (*), f_abs = abs, f_div = (/), f_gt = (\<lambda>x y. x > y)\<rparr>"

text \<open>The members of \<^verbatim>\<open>VoiceRecognitionSim\<close>.\<close>

record 'f VoiceRecognitionSim =
  keywordModels :: "'f list list"
  audioBuffer :: "'f list"
  BUFFER_SIZE :: int
  RESPONSE_THRESHOLD :: 'f

text \<open>
  The loop of \<^verbatim>\<open>initializeKeywordModels\<close>: for \<open>i\<close> from 0 while \<open>i < 3\<close>, a model of 256
  copies of \<^verbatim>\<open>0.1f * (i + 1)\<close> is appended.
\<close>

function initializeLoop :: "'f float_ops \<Rightarrow> int \<Rightarrow> 'f list list \<Rightarrow> 'f list list" where
  "initializeLoop ops i models =
     (if i < 3
      then initializeLoop ops (i + 1)
             (models @ [replicate 256 (f_mul ops (f_tenth ops) (f_of_int ops (i + 1)))])
      else models)"
  by pat_completeness auto
termination
  by (relation "measure (\<lambda>(ops, i, models). nat (3 - i))") auto

declare initializeLoop.simps [simp del]

definition initializeKeywordModels :: "'f float_ops \<Rightarrow> 'f VoiceRecognitionSim \<Rightarrow> 'f VoiceRecognitionSim" where
  "initializeKeywordModels ops s = s\<lparr>keywordModels := initializeLoop ops 0 (keywordModels s)\<rparr>"

definition VoiceRecognitionSim :: "'f float_ops \<Rightarrow> 'f VoiceRecognitionSim" where
  "VoiceRecognitionSim ops =
     initializeKeywordModels ops
       \<lparr>keywordModels = [], audioBuffer = [], BUFFER_SIZE = 1024,
        RESPONSE_THRESHOLD = f_threshold ops\<rparr>"

text \<open>\<^verbatim>\<open>std::min(a.size(), b.size())\<close>: the loop bound and the divisor of \<^verbatim>\<open>computeSimilarity\<close>.\<close>

definition similarityDivisor :: "'f list \<Rightarrow> 'f list \<Rightarrow> nat" where
  "similarityDivisor a b = min (length a) (length b)"

text \<open>The accumulation loop of \<^verbatim>\<open>computeSimilarity\<close>.\<close>

function dotLoop :: "'f float_ops \<Rightarrow> 'f list \<Rightarrow> 'f list \<Rightarrow> nat \<Rightarrow> 'f \<Rightarrow> 'f" where
  "dotLoop ops a b i similarity =
     (if i < similarityDivisor a b
      then dotLoop ops a b (Suc i) (f_add ops similarity (f_mul ops (a ! i) (b ! i)))
      else similarity)"
  by pat_completeness auto
termination
  by (relation "measure (\<lambda>(ops, a, b, i, similarity). similarityDivisor a b - i)") auto

declare dotLoop.simps [simp del]

definition computeSimilarity :: "'f float_ops \<Rightarrow> 'f list \<Rightarrow> 'f list \<Rightarrow> 'f" where
  "computeSimilarity ops a b =
     f_div ops (f_abs ops (dotLoop ops a b 0 (f_zero ops))) (f_of_size ops (similarityDivisor a b))"

text \<open>The loop of \<^verbatim>\<open>matchKeywords\<close> over the models, left at the first confident one.\<close>

fun matchLoop :: "'f float_ops \<Rightarrow> 'f \<Rightarrow> 'f list \<Rightarrow> 'f list list \<Rightarrow> bool" where
  "matchLoop ops threshold features [] = False"
| "matchLoop ops threshold features (model # rest) =
     (let confidence = computeSimilarity ops features model
      in if f_gt ops confidence threshold then True
         else matchLoop ops threshold features rest)"

definition matchKeywords :: "'f float_ops \<Rightarrow> 'f VoiceRecognitionSim \<Rightarrow> 'f list \<Rightarrow> bool" where
  "matchKeywords ops s features =
     matchLoop ops (RESPONSE_THRESHOLD s) features (keywordModels s)"

text \<open>
  \<^verbatim>\<open>simulateAudioCapture\<close> clears the audio buffer and pushes \<^verbatim>\<open>BUFFER_SIZE\<close> draws of
  its own generator; \<^verbatim>\<open>extractFeatures\<close> returns 256 draws of its own generator. The
  argument \<open>dis\<close> is the draw sequence of the call.
\<close>

definition simulateAudioCapture :: "'f VoiceRecognitionSim \<Rightarrow> (nat \<Rightarrow> 'f) \<Rightarrow> 'f VoiceRecognitionSim" where
  "simulateAudioCapture s dis = s\<lparr>audioBuffer := map dis [0..<nat (BUFFER_SIZE s)]\<rparr>"

definition extractFeatures :: "(nat \<Rightarrow> 'f) \<Rightarrow> 'f list" where
  "extractFeatures dis = map dis [0..<256]"

text \<open>
  The frame loop shared by \<^verbatim>\<open>testRealTimeProcessing\<close> (8 frames) and
  \<^verbatim>\<open>testKeywordDetection\<close> (10 tests): capture, extract, match. \<open>rnd i\<close> holds the two
  draw sequences of iteration \<open>i\<close>, the last argument counts the iterations left. The
  result lists the detection flags in order, from which the programs print their lines
  and counts, and gives the simulator afterwards. Timing is not modelled.
\<close>

fun frameLoop ::
  "'f float_ops \<Rightarrow> 'f VoiceRecognitionSim \<Rightarrow> (nat \<Rightarrow> (nat \<Rightarrow> 'f) \<times> (nat \<Rightarrow> 'f)) \<Rightarrow> nat \<Rightarrow> nat
     \<Rightarrow> bool list \<times> 'f VoiceRecognitionSim" where
  "frameLoop ops s rnd i 0 = ([], s)"
| "frameLoop ops s rnd i (Suc n) =
     (let s1 = simulateAudioCapture s (fst (rnd i));
          features = extractFeatures (snd (rnd i));
          detected = matchKeywords ops s1 features;
          (rest, s2) = frameLoop ops s1 rnd (Suc i) n
      in (detected # rest, s2))"

definition testRealTimeProcessing ::
  "'f float_ops \<Rightarrow> 'f VoiceRecognitionSim \<Rightarrow> (nat \<Rightarrow> (nat \<Rightarrow> 'f) \<times> (nat \<Rightarrow> 'f))
     \<Rightarrow> bool list \<times> 'f VoiceRecognitionSim" where
  "testRealTimeProcessing ops s rnd = frameLoop ops s rnd 0 8"

definition testKeywordDetection ::
  "'f float_ops \<Rightarrow> 'f VoiceRecognitionSim \<Rightarrow> (nat \<Rightarrow> (nat \<Rightarrow> 'f) \<times> (nat \<Rightarrow> 'f))
     \<Rightarrow> bool list \<times> 'f VoiceRecognitionSim" where
  "testKeywordDetection ops s rnd = frameLoop ops s rnd 0 10"

section \<open>The specification's wording of the trust decision\<close>

text \<open>
  The decision order as the specification gives it, on a count that is a natural number.
\<close>

definition decide_tier :: "string \<Rightarrow> nat \<Rightarrow> string" where
  "decide_tier location trustedCount =
     (if location = ''Home'' \<and> trustedCount \<ge> 2 then ''home_trusted''
      else if location = ''Office'' \<and> trustedCount \<ge> 1 then ''public_trusted''
      else if trustedCount \<ge> 1 then ''public_trusted''
      else if location = ''Rural Area'' then ''emergency''
      else ''untrusted'')"

text \<open>
  The specification's \<^verbatim>\<open>evaluateTrustLevel\<close>: the count is the size of the intersection
  of the nearby devices with the trusted-device set.
\<close>

definition evaluateTrustLevel_spec :: "string list \<Rightarrow> string \<Rightarrow> string" where
  "evaluateTrustLevel_spec devices location =
     decide_tier location
       (card (set devices \<inter> {''home_wifi'', ''office_bt'', ''car_system'', ''personal_tablet''}))"

section \<open>Properties of the connectivity simulator\<close>

lemma policyRules_init:
  "policyRules IntelligentConnectivitySim =
     [''home_trusted'' \<mapsto>
        \<lparr>securityLevel = ''LOW'', requirePIN = False, dataLimit = 1000,
         connectionType = ''FULL_ACCESS''\<rparr>,
      ''public_trusted'' \<mapsto>
        \<lparr>securityLevel = ''MEDIUM'', requirePIN = True, dataLimit = 500,
         connectionType = ''LIMITED_ACCESS''\<rparr>,
      ''untrusted'' \<mapsto>
        \<lparr>securityLevel = ''HIGH'', requirePIN = True, dataLimit = 100,
         connectionType = ''RESTRICTED''\<rparr>,
      ''emergency'' \<mapsto>
        \<lparr>securityLevel = ''CRITICAL'', requirePIN = True, dataLimit = 50,
         connectionType = ''EMERGENCY_ONLY''\<rparr>]"
  by (simp add: IntelligentConnectivitySim_def initializeTrustedDevices_def
      initializePolicies_def Let_def)

lemma trustedDevices_init:
  "trustedDevices IntelligentConnectivitySim =
     [''home_wifi'', ''office_bt'', ''car_system'', ''personal_tablet'']"
  by (simp add: IntelligentConnectivitySim_def initializeTrustedDevices_def)

lemma applyPolicy_present:
  "policyRules s trustLevel = Some p \<Longrightarrow> applyPolicy s trustLevel location = (p, s)"
  by (simp add: applyPolicy_def map_subscript_def)

lemma applyPolicy_absent:
  "policyRules s trustLevel = None \<Longrightarrow>
   applyPolicy s trustLevel location =
     (NetworkPolicy_default, s\<lparr>policyRules := (policyRules s)(trustLevel \<mapsto> NetworkPolicy_default)\<rparr>)"
  by (simp add: applyPolicy_def map_subscript_def)

lemma applyPolicy_again:
  "fst (applyPolicy (snd (applyPolicy s trustLevel location)) trustLevel location') =
   fst (applyPolicy s trustLevel location)"
  by (cases "policyRules s trustLevel") (simp_all add: applyPolicy_present applyPolicy_absent)

text \<open>
  C3. For each of the four tier names, \<^verbatim>\<open>applyPolicy\<close> on the simulator as constructed
  returns exactly the fields the initialisation stored (home\_trusted: LOW, no PIN, 1000,
  FULL\_ACCESS; public\_trusted: MEDIUM, PIN, 500, LIMITED\_ACCESS; untrusted: HIGH, PIN,
  100, RESTRICTED; emergency: CRITICAL, PIN, 50, EMERGENCY\_ONLY), and a second call with
  the same tier name, on the simulator the first call left behind, returns the same
  fields, whatever the table and the tier name.
\<close>

theorem applyPolicy_table:
  "fst (applyPolicy IntelligentConnectivitySim ''home_trusted'' location) =
     \<lparr>securityLevel = ''LOW'', requirePIN = False, dataLimit = 1000,
      connectionType = ''FULL_ACCESS''\<rparr>
   \<and> fst (applyPolicy IntelligentConnectivitySim ''public_trusted'' location) =
     \<lparr>securityLevel = ''MEDIUM'', requirePIN = True, dataLimit = 500,
      connectionType = ''LIMITED_ACCESS''\<rparr>
   \<and> fst (applyPolicy IntelligentConnectivitySim ''untrusted'' location) =
     \<lparr>securityLevel = ''HIGH'', requirePIN = True, dataLimit = 100,
      connectionType = ''RESTRICTED''\<rparr>
   \<and> fst (applyPolicy IntelligentConnectivitySim ''emergency'' location) =
     \<lparr>securityLevel = ''CRITICAL'', requirePIN = True, dataLimit = 50,
      connectionType = ''EMERGENCY_ONLY''\<rparr>
   \<and> fst (applyPolicy (snd (applyPolicy s trustLevel location)) trustLevel location') =
     fst (applyPolicy s trustLevel location)"
proof -
  have "fst (applyPolicy IntelligentConnectivitySim ''home_trusted'' location) =
     \<lparr>securityLevel = ''LOW'', requirePIN = False, dataLimit = 1000,
      connectionType = ''FULL_ACCESS''\<rparr>"
    by (simp add: applyPolicy_def map_subscript_def policyRules_init)
  moreover have "fst (applyPolicy IntelligentConnectivitySim ''public_trusted'' location) =
     \<lparr>securityLevel = ''MEDIUM'', requirePIN = True, dataLimit = 500,
      connectionType = ''LIMITED_ACCESS''\<rparr>"
    by (simp add: applyPolicy_def map_subscript_def policyRules_init)
  moreover have "fst (applyPolicy IntelligentConnectivitySim ''untrusted'' location) =
     \<lparr>securityLevel = ''HIGH'', requirePIN = True, dataLimit = 100,
      connectionType = ''RESTRICTED''\<rparr>"
    by (simp add: applyPolicy_def map_subscript_def policyRules_init)
  moreover have "fst (applyPolicy IntelligentConnectivitySim ''emergency'' location) =
     \<lparr>securityLevel = ''CRITICAL'', requirePIN = True, dataLimit = 50,
      connectionType = ''EMERGENCY_ONLY''\<rparr>"
    by (simp add: applyPolicy_def map_subscript_def policyRules_init)
  ultimately show ?thesis
    using applyPolicy_again by blast
qed


lemma find_from_sublist: "find_from hay needle i \<noteq> None \<longleftrightarrow> sublist needle hay"
  by (induction hay arbitrary: i) (auto simp: sublist_Cons_right)

lemma string_find_sublist: "string_find hay needle \<noteq> None \<longleftrightarrow> sublist needle hay"
  using find_from_sublist [of hay needle 0] by (simp add: string_find_def)

lemma matchTrusted_eq:
  "matchTrusted device trusted c =
     (if device \<in> set trusted
      then (if c = INT_MAX then Inl SignedOverflow else Inr (c + 1))
      else Inr c)"
  by (induction trusted) auto

lemma countTrusted_eq:
  "c + int (length (filter (\<lambda>d. d \<in> set trusted) devices)) \<le> INT_MAX \<Longrightarrow>
   countTrusted devices trusted c = Inr (c + int (length (filter (\<lambda>d. d \<in> set trusted) devices)))"
proof (induction devices arbitrary: c)
  case Nil
  then show ?case by simp
next
  case (Cons d ds)
  show ?case
  proof (cases "d \<in> set trusted")
    case True
    with Cons.prems have "c \<noteq> INT_MAX" by auto
    moreover from True Cons.prems
    have "(c + 1) + int (length (filter (\<lambda>d. d \<in> set trusted) ds)) \<le> INT_MAX" by simp
    ultimately show ?thesis
      using True Cons.IH [of "c + 1"] by (simp add: matchTrusted_eq)
  next
    case False
    with Cons.prems Cons.IH [of c] show ?thesis by (simp add: matchTrusted_eq)
  qed
qed

lemma countTrusted_bounded:
  assumes "int (length devices) \<le> INT_MAX"
  shows "countTrusted devices trusted 0 = Inr (int (length (filter (\<lambda>d. d \<in> set trusted) devices)))"
proof -
  have "length (filter (\<lambda>d. d \<in> set trusted) devices) \<le> length devices" by simp
  with assms have "0 + int (length (filter (\<lambda>d. d \<in> set trusted) devices)) \<le> INT_MAX" by linarith
  from countTrusted_eq [OF this] show ?thesis by simp
qed

lemma makeConnectivityDecisions_map:
  "makeConnectivityDecisions networks policy = map (classify policy) networks"
  by (induction networks) simp_all


lemma evaluateTrustLevel_count:
  assumes "int (length devices) \<le> INT_MAX"
  shows "evaluateTrustLevel s devices location =
           Inr (decide_tier location (length (filter (\<lambda>d. d \<in> set (trustedDevices s)) devices)))"
  by (simp add: evaluateTrustLevel_def countTrusted_bounded [OF assms] decide_tier_def)

lemma decide_tier_cases:
  "decide_tier location n \<in> {''home_trusted'', ''public_trusted'', ''untrusted'', ''emergency''}"
  by (simp add: decide_tier_def)

lemma filter_card_distinct:
  "distinct xs \<Longrightarrow> length (filter (\<lambda>d. d \<in> A) xs) = card (set xs \<inter> A)"
  by (simp only: distinct_length_filter Collect_mem_eq Int_commute)

text \<open>
  C1, as stated, fails on a list that names a trusted device twice: the code counts the
  entries of the list that are trusted, so \<open>[home_wifi, home_wifi]\<close> at Home counts 2
  and gives \<open>home_trusted\<close>, while the intersection with the trusted-device set has one
  element, for which the stated decision order gives \<open>public_trusted\<close>.
\<close>

theorem evaluateTrustLevel_duplicates:
  "evaluateTrustLevel IntelligentConnectivitySim [''home_wifi'', ''home_wifi''] ''Home''
     = Inr ''home_trusted''
   \<and> evaluateTrustLevel_spec [''home_wifi'', ''home_wifi''] ''Home'' = ''public_trusted''
   \<and> evaluateTrustLevel IntelligentConnectivitySim [''home_wifi'', ''home_wifi''] ''Home''
     \<noteq> Inr (evaluateTrustLevel_spec [''home_wifi'', ''home_wifi''] ''Home'')"
  by (simp add: evaluateTrustLevel_def trustedDevices_init INT_MAX_def
      evaluateTrustLevel_spec_def decide_tier_def)

text \<open>
  C1, amended. For every list of nearby devices short enough for the \<^verbatim>\<open>int\<close> counter
  (at most \<open>INT_MAX\<close> entries) and every location, \<^verbatim>\<open>evaluateTrustLevel\<close> on the
  constructed simulator returns the tier that the stated decision order (Home and count
  at least 2: home\_trusted; Office and count at least 1: public\_trusted; count at least
  1: public\_trusted; Rural Area: emergency; otherwise untrusted) gives for the number of
  list entries, repetitions included, that are in
  \<open>{home_wifi, office_bt, car_system, personal_tablet}\<close>. When no device is listed twice
  that number is the size of the intersection, and the result is the specification's.
\<close>

theorem evaluateTrustLevel_decision:
  assumes "int (length devices) \<le> INT_MAX"
  shows "evaluateTrustLevel IntelligentConnectivitySim devices location =
           Inr (decide_tier location
                 (length (filter (\<lambda>d. d \<in> {''home_wifi'', ''office_bt'', ''car_system'',
                                             ''personal_tablet''}) devices)))
         \<and> (distinct devices \<longrightarrow>
              evaluateTrustLevel IntelligentConnectivitySim devices location =
                Inr (evaluateTrustLevel_spec devices location))
         \<and> evaluateTrustLevel IntelligentConnectivitySim [''home_wifi'', ''car_system''] ''Home''
             = Inr ''home_trusted''"
proof -
  have A: "set (trustedDevices IntelligentConnectivitySim) =
             {''home_wifi'', ''office_bt'', ''car_system'', ''personal_tablet''}"
    by (simp add: trustedDevices_init)
  have 1: "evaluateTrustLevel IntelligentConnectivitySim devices location =
           Inr (decide_tier location
                 (length (filter (\<lambda>d. d \<in> {''home_wifi'', ''office_bt'', ''car_system'',
                                             ''personal_tablet''}) devices)))"
    using evaluateTrustLevel_count [OF assms, of IntelligentConnectivitySim location]
    unfolding A .
  have 2: "evaluateTrustLevel IntelligentConnectivitySim devices location =
             Inr (evaluateTrustLevel_spec devices location)" if "distinct devices"
    unfolding 1 evaluateTrustLevel_spec_def filter_card_distinct [OF that] ..
  have 3: "evaluateTrustLevel IntelligentConnectivitySim [''home_wifi'', ''car_system''] ''Home''
             = Inr ''home_trusted''"
    by (simp add: evaluateTrustLevel_def trustedDevices_init INT_MAX_def)
  from 1 2 3 show ?thesis by blast
qed

theorem evaluateTrustLevel_decision_witness:
  "int (length [''office_bt'', ''unknown_device_1'']) \<le> INT_MAX
   \<and> distinct [''office_bt'', ''unknown_device_1'']
   \<and> evaluateTrustLevel IntelligentConnectivitySim [''office_bt'', ''unknown_device_1'']
        ''Airport'' = Inr ''public_trusted''
   \<and> evaluateTrustLevel_spec [''office_bt'', ''unknown_device_1''] ''Airport''
        = ''public_trusted''"
proof -
  have h: "int (length [''office_bt'', ''unknown_device_1'']) \<le> INT_MAX"
    by (simp add: INT_MAX_def)
  have d: "distinct [''office_bt'', ''unknown_device_1'']" by simp
  have "evaluateTrustLevel IntelligentConnectivitySim [''office_bt'', ''unknown_device_1'']
        ''Airport'' = Inr (evaluateTrustLevel_spec [''office_bt'', ''unknown_device_1''] ''Airport'')"
    using evaluateTrustLevel_decision [OF h, of "''Airport''"] d by blast
  moreover have "evaluateTrustLevel_spec [''office_bt'', ''unknown_device_1''] ''Airport''
        = ''public_trusted''"
    by (simp add: evaluateTrustLevel_spec_def decide_tier_def)
  ultimately show ?thesis using h d by simp
qed

lemma classify_LOW:
  "securityLevel policy = ''LOW'' \<Longrightarrow> classify policy n = Decision ''FULL'' n ''trusted''"
  by (simp add: classify_def)

lemma classify_MEDIUM:
  "securityLevel policy = ''MEDIUM'' \<Longrightarrow>
   classify policy n =
     (if sublist ''Secure'' n \<or> sublist ''Office'' n
      then Decision ''LIMITED'' n ''secured'' else Decision ''AVOID'' n ''unsecured'')"
  using string_find_sublist [of n "''Secure''"] string_find_sublist [of n "''Office''"]
  by (simp add: classify_def)

lemma classify_HIGH:
  "securityLevel policy = ''HIGH'' \<Longrightarrow>
   classify policy n =
     (if n = ''Cellular_Data''
      then Decision ''RESTRICTED'' n ''cellular'' else Decision ''BLOCKED'' n ''untrusted'')"
  by (simp add: classify_def)

lemma classify_CRITICAL:
  "securityLevel policy = ''CRITICAL'' \<Longrightarrow>
   classify policy n =
     (if n = ''Cellular_Data''
      then Decision ''EMERGENCY'' n ''minimal'' else Decision ''BLOCKED'' n [])"
  by (simp add: classify_def)

lemma classify_level_only:
  "securityLevel policy = securityLevel policy' \<Longrightarrow> classify policy n = classify policy' n"
  by (simp add: classify_def)

text \<open>
  C2. For every list of networks and every policy, \<^verbatim>\<open>makeConnectivityDecisions\<close> gives
  one line per network, in order, decided by the security level alone: LOW gives FULL for
  every network; MEDIUM gives LIMITED exactly for the names that contain \<open>Secure\<close> or
  \<open>Office\<close> as a substring and AVOID for the others; HIGH gives RESTRICTED exactly for
  \<open>Cellular_Data\<close> and BLOCKED for the others; CRITICAL gives EMERGENCY exactly for
  \<open>Cellular_Data\<close> and BLOCKED for the others. Two policies with the same security level
  give the same lines.
\<close>

theorem makeConnectivityDecisions_by_level:
  "(securityLevel policy = ''LOW'' \<longrightarrow>
      makeConnectivityDecisions networks policy =
        map (\<lambda>n. Decision ''FULL'' n ''trusted'') networks)
   \<and> (securityLevel policy = ''MEDIUM'' \<longrightarrow>
      makeConnectivityDecisions networks policy =
        map (\<lambda>n. if sublist ''Secure'' n \<or> sublist ''Office'' n
                 then Decision ''LIMITED'' n ''secured''
                 else Decision ''AVOID'' n ''unsecured'') networks)
   \<and> (securityLevel policy = ''HIGH'' \<longrightarrow>
      makeConnectivityDecisions networks policy =
        map (\<lambda>n. if n = ''Cellular_Data''
                 then Decision ''RESTRICTED'' n ''cellular''
                 else Decision ''BLOCKED'' n ''untrusted'') networks)
   \<and> (securityLevel policy = ''CRITICAL'' \<longrightarrow>
      makeConnectivityDecisions networks policy =
        map (\<lambda>n. if n = ''Cellular_Data''
                 then Decision ''EMERGENCY'' n ''minimal''
                 else Decision ''BLOCKED'' n []) networks)
   \<and> (securityLevel policy = securityLevel policy' \<longrightarrow>
      makeConnectivityDecisions networks policy = makeConnectivityDecisions networks policy')"
proof (intro conjI impI)
  assume "securityLevel policy = ''LOW''"
  then show "makeConnectivityDecisions networks policy =
        map (\<lambda>n. Decision ''FULL'' n ''trusted'') networks"
    by (simp add: makeConnectivityDecisions_map classify_LOW)
next
  assume "securityLevel policy = ''MEDIUM''"
  then show "makeConnectivityDecisions networks policy =
        map (\<lambda>n. if sublist ''Secure'' n \<or> sublist ''Office'' n
                 then Decision ''LIMITED'' n ''secured''
                 else Decision ''AVOID'' n ''unsecured'') networks"
    by (induction networks) (simp_all add: classify_MEDIUM)
next
  assume "securityLevel policy = ''HIGH''"
  then show "makeConnectivityDecisions networks policy =
        map (\<lambda>n. if n = ''Cellular_Data''
                 then Decision ''RESTRICTED'' n ''cellular''
                 else Decision ''BLOCKED'' n ''untrusted'') networks"
    by (induction networks) (simp_all add: classify_HIGH)
next
  assume "securityLevel policy = ''CRITICAL''"
  then show "makeConnectivityDecisions networks policy =
        map (\<lambda>n. if n = ''Cellular_Data''
                 then Decision ''EMERGENCY'' n ''minimal''
                 else Decision ''BLOCKED'' n []) networks"
    by (induction networks) (simp_all add: classify_CRITICAL)
next
  assume "securityLevel policy = securityLevel policy'"
  then show "makeConnectivityDecisions networks policy = makeConnectivityDecisions networks policy'"
    by (induction networks) (simp_all add: classify_def)
qed

theorem makeConnectivityDecisions_by_level_witness:
  "makeConnectivityDecisions [''Home_WiFi_5G'', ''Cellular_Data'']
      \<lparr>securityLevel = ''LOW'', requirePIN = False, dataLimit = 1000,
       connectionType = ''FULL_ACCESS''\<rparr>
    = [Decision ''FULL'' ''Home_WiFi_5G'' ''trusted'',
       Decision ''FULL'' ''Cellular_Data'' ''trusted'']
   \<and> makeConnectivityDecisions [''Office_Secure'', ''Conference_Room'', ''Cellular_Data'']
      \<lparr>securityLevel = ''MEDIUM'', requirePIN = True, dataLimit = 500,
       connectionType = ''LIMITED_ACCESS''\<rparr>
    = [Decision ''LIMITED'' ''Office_Secure'' ''secured'',
       Decision ''AVOID'' ''Conference_Room'' ''unsecured'',
       Decision ''AVOID'' ''Cellular_Data'' ''unsecured'']
   \<and> makeConnectivityDecisions [''Cellular_4G'', ''Cellular_Data'']
      \<lparr>securityLevel = ''HIGH'', requirePIN = True, dataLimit = 100,
       connectionType = ''RESTRICTED''\<rparr>
    = [Decision ''BLOCKED'' ''Cellular_4G'' ''untrusted'',
       Decision ''RESTRICTED'' ''Cellular_Data'' ''cellular'']
   \<and> makeConnectivityDecisions [''Cellular_3G'', ''Cellular_Data'']
      \<lparr>securityLevel = ''CRITICAL'', requirePIN = True, dataLimit = 50,
       connectionType = ''EMERGENCY_ONLY''\<rparr>
    = [Decision ''BLOCKED'' ''Cellular_3G'' [],
       Decision ''EMERGENCY'' ''Cellular_Data'' ''minimal'']
   \<and> makeConnectivityDecisions [''Cellular_3G'', ''Cellular_Data'']
      \<lparr>securityLevel = ''CRITICAL'', requirePIN = False, dataLimit = 0,
       connectionType = []\<rparr>
    = makeConnectivityDecisions [''Cellular_3G'', ''Cellular_Data'']
      \<lparr>securityLevel = ''CRITICAL'', requirePIN = True, dataLimit = 50,
       connectionType = ''EMERGENCY_ONLY''\<rparr>"
proof -
  let ?low = "\<lparr>securityLevel = ''LOW'', requirePIN = False, dataLimit = 1000,
               connectionType = ''FULL_ACCESS''\<rparr>"
  let ?medium = "\<lparr>securityLevel = ''MEDIUM'', requirePIN = True, dataLimit = 500,
               connectionType = ''LIMITED_ACCESS''\<rparr>"
  let ?high = "\<lparr>securityLevel = ''HIGH'', requirePIN = True, dataLimit = 100,
               connectionType = ''RESTRICTED''\<rparr>"
  let ?critical = "\<lparr>securityLevel = ''CRITICAL'', requirePIN = True, dataLimit = 50,
               connectionType = ''EMERGENCY_ONLY''\<rparr>"
  let ?other = "\<lparr>securityLevel = ''CRITICAL'', requirePIN = False, dataLimit = 0,
               connectionType = []\<rparr>"
  have 1: "makeConnectivityDecisions [''Home_WiFi_5G'', ''Cellular_Data''] ?low
             = [Decision ''FULL'' ''Home_WiFi_5G'' ''trusted'',
                Decision ''FULL'' ''Cellular_Data'' ''trusted'']"
    using makeConnectivityDecisions_by_level [of ?low "[''Home_WiFi_5G'', ''Cellular_Data'']"]
    by simp
  have 2: "makeConnectivityDecisions [''Office_Secure'', ''Conference_Room'', ''Cellular_Data'']
             ?medium
             = [Decision ''LIMITED'' ''Office_Secure'' ''secured'',
                Decision ''AVOID'' ''Conference_Room'' ''unsecured'',
                Decision ''AVOID'' ''Cellular_Data'' ''unsecured'']"
    using makeConnectivityDecisions_by_level
            [of ?medium "[''Office_Secure'', ''Conference_Room'', ''Cellular_Data'']"]
    by (simp add: sublist_Cons_right)
  have 3: "makeConnectivityDecisions [''Cellular_4G'', ''Cellular_Data''] ?high
             = [Decision ''BLOCKED'' ''Cellular_4G'' ''untrusted'',
                Decision ''RESTRICTED'' ''Cellular_Data'' ''cellular'']"
    using makeConnectivityDecisions_by_level [of ?high "[''Cellular_4G'', ''Cellular_Data'']"]
    by simp
  have 4: "makeConnectivityDecisions [''Cellular_3G'', ''Cellular_Data''] ?critical
             = [Decision ''BLOCKED'' ''Cellular_3G'' [],
                Decision ''EMERGENCY'' ''Cellular_Data'' ''minimal'']"
    using makeConnectivityDecisions_by_level [of ?critical "[''Cellular_3G'', ''Cellular_Data'']"]
    by simp
  have "securityLevel ?other = securityLevel ?critical" by simp
  then have 5: "makeConnectivityDecisions [''Cellular_3G'', ''Cellular_Data''] ?other
             = makeConnectivityDecisions [''Cellular_3G'', ''Cellular_Data''] ?critical"
    using makeConnectivityDecisions_by_level
            [of ?other "[''Cellular_3G'', ''Cellular_Data'']" ?critical]
    by blast
  from 1 2 3 4 5 show ?thesis by blast
qed

lemma scanDevices_length: "length (scanDevices location dis) \<le> 5"
  by (simp add: scanDevices_def)

lemma trust_tier_present:
  assumes "int (length devices) \<le> INT_MAX"
  shows "\<exists>tier policy.
           evaluateTrustLevel IntelligentConnectivitySim devices location = Inr tier
         \<and> tier \<in> {''home_trusted'', ''public_trusted'', ''untrusted'', ''emergency''}
         \<and> policyRules IntelligentConnectivitySim tier = Some policy
         \<and> applyPolicy IntelligentConnectivitySim tier location =
             (policy, IntelligentConnectivitySim)"
proof -
  define tier where "tier = decide_tier location
      (length (filter (\<lambda>d. d \<in> set (trustedDevices IntelligentConnectivitySim)) devices))"
  have e: "evaluateTrustLevel IntelligentConnectivitySim devices location = Inr tier"
    unfolding tier_def by (rule evaluateTrustLevel_count [OF assms])
  have t: "tier \<in> {''home_trusted'', ''public_trusted'', ''untrusted'', ''emergency''}"
    unfolding tier_def by (rule decide_tier_cases)
  then obtain policy where p: "policyRules IntelligentConnectivitySim tier = Some policy"
    by (auto simp: policyRules_init)
  from e t p applyPolicy_present [OF p] show ?thesis by blast
qed

lemma testEnvironment_unchanged:
  "\<exists>lines. testEnvironment IntelligentConnectivitySim location dis =
             Inr (lines, IntelligentConnectivitySim)"
proof -
  have "int (length (scanDevices location dis)) \<le> INT_MAX"
    using scanDevices_length [of location dis] by (simp add: INT_MAX_def)
  from trust_tier_present [OF this, of location]
  obtain tier policy where
    "evaluateTrustLevel IntelligentConnectivitySim (scanDevices location dis) location = Inr tier"
    "applyPolicy IntelligentConnectivitySim tier location = (policy, IntelligentConnectivitySim)"
    by blast
  then show ?thesis by (simp add: testEnvironment_def)
qed

lemma applyPolicy_unchanged_iff:
  "snd (applyPolicy s trustLevel location) = s \<longleftrightarrow> policyRules s trustLevel \<noteq> None"
proof (cases "policyRules s trustLevel")
  case None
  have "s\<lparr>policyRules := (policyRules s)(trustLevel \<mapsto> NetworkPolicy_default)\<rparr> \<noteq> s"
  proof
    assume "s\<lparr>policyRules := (policyRules s)(trustLevel \<mapsto> NetworkPolicy_default)\<rparr> = s"
    then have "policyRules (s\<lparr>policyRules := (policyRules s)(trustLevel \<mapsto> NetworkPolicy_default)\<rparr>)
                 trustLevel = policyRules s trustLevel"
      by simp
    with None show False by simp
  qed
  with None show ?thesis by (simp add: applyPolicy_absent)
next
  case (Some p)
  then show ?thesis by (simp add: applyPolicy_present)
qed

text \<open>
  C9. For every list of nearby devices (at most \<open>INT_MAX\<close> entries, so that the counter
  is defined) and every location, \<^verbatim>\<open>evaluateTrustLevel\<close> returns one of the four tier
  names, that name is a key of the table \<^verbatim>\<open>initializePolicies\<close> installed, and
  \<^verbatim>\<open>applyPolicy\<close> on it returns the installed entry and leaves the simulator as it was:
  the subscript never takes its insert-a-default path.
\<close>

theorem evaluateTrustLevel_tier_installed:
  assumes "int (length devices) \<le> INT_MAX"
  shows "\<exists>tier policy.
           evaluateTrustLevel IntelligentConnectivitySim devices location = Inr tier
         \<and> tier \<in> {''home_trusted'', ''public_trusted'', ''untrusted'', ''emergency''}
         \<and> policyRules IntelligentConnectivitySim tier = Some policy
         \<and> applyPolicy IntelligentConnectivitySim tier location =
             (policy, IntelligentConnectivitySim)"
  using assms by (rule trust_tier_present)

theorem evaluateTrustLevel_tier_installed_witness:
  "int (length [''office_bt'', ''printer_01'']) \<le> INT_MAX
   \<and> evaluateTrustLevel IntelligentConnectivitySim [''office_bt'', ''printer_01''] ''Office''
       = Inr ''public_trusted''
   \<and> applyPolicy IntelligentConnectivitySim ''public_trusted'' ''Office'' =
       (\<lparr>securityLevel = ''MEDIUM'', requirePIN = True, dataLimit = 500,
         connectionType = ''LIMITED_ACCESS''\<rparr>, IntelligentConnectivitySim)"
proof -
  have h: "int (length [''office_bt'', ''printer_01'']) \<le> INT_MAX" by (simp add: INT_MAX_def)
  have e: "evaluateTrustLevel IntelligentConnectivitySim [''office_bt'', ''printer_01''] ''Office''
       = Inr ''public_trusted''"
    by (simp add: evaluateTrustLevel_def trustedDevices_init INT_MAX_def)
  from evaluateTrustLevel_tier_installed [OF h, of "''Office''"] e
  have "\<exists>policy. policyRules IntelligentConnectivitySim ''public_trusted'' = Some policy
         \<and> applyPolicy IntelligentConnectivitySim ''public_trusted'' ''Office'' =
             (policy, IntelligentConnectivitySim)"
    by simp
  then have "applyPolicy IntelligentConnectivitySim ''public_trusted'' ''Office'' =
       (\<lparr>securityLevel = ''MEDIUM'', requirePIN = True, dataLimit = 500,
         connectionType = ''LIMITED_ACCESS''\<rparr>, IntelligentConnectivitySim)"
    by (auto simp: policyRules_init)
  with h e show ?thesis by blast
qed

section \<open>Properties of the biometric simulator\<close>

lemma userDatabase_init:
  "userDatabase BiometricSecuritySim =
     [''thabo'' \<mapsto> \<lparr>voicePrintHash = ''voice_hash_1234'', pin = ''5678'',
                    profileTrustedDevices = [''home_bt'', ''car_bt'']\<rparr>,
      ''matseliso'' \<mapsto> \<lparr>voicePrintHash = ''voice_hash_5678'', pin = ''1234'',
                    profileTrustedDevices = [''office_wifi'']\<rparr>,
      ''ntate_john'' \<mapsto> \<lparr>voicePrintHash = ''voice_hash_9012'', pin = ''4321'',
                    profileTrustedDevices = [''home_bt'', ''personal_device'']\<rparr>]"
  by (simp add: BiometricSecuritySim_def initializeUserDatabase_def Let_def)

lemma nearbyMatch_iff: "nearbyMatch t nearby \<longleftrightarrow> t \<in> set nearby"
  by (induction nearby) auto

lemma trustedLoop_iff: "trustedLoop ts nearby \<longleftrightarrow> (\<exists>t \<in> set ts. t \<in> set nearby)"
  by (induction ts) (auto simp: nearbyMatch_iff)

lemma isTrustedEnvironment_iff:
  "isTrustedEnvironment s profile \<longleftrightarrow>
     (\<exists>d \<in> set (profileTrustedDevices profile). d \<in> set (nearbyDevices s))"
  by (simp add: isTrustedEnvironment_def trustedLoop_iff)

lemma authenticateUser_found:
  assumes "userDatabase s userId = Some profile"
  shows "authenticateUser coin s k userId =
           (if coin k \<and> isTrustedEnvironment s profile
            then (AuthReport userId True ''Voice'' '' (Trusted Environment)'', s, Suc k)
            else if coin k
            then (AuthReport userId True ''Voice'' [], s, Suc k)
            else (AuthReport userId (coin (Suc k)) ''PIN'' [], s, Suc (Suc k)))"
  using assms
  by (simp add: authenticateUser_def map_subscript_def authenticateVoice_def verifyPIN_def)

lemma authenticateUser_absent:
  "userDatabase s userId = None \<Longrightarrow> authenticateUser coin s k userId = (UserNotFound userId, s, k)"
  by (simp add: authenticateUser_def)

lemma authenticateUser_sim: "fst (snd (authenticateUser coin s k userId)) = s"
  by (cases "userDatabase s userId")
     (simp_all add: authenticateUser_absent authenticateUser_found)

lemma testUserAuthentication_unknown:
  "\<exists>r1 r2 r3 k'. testUserAuthentication coin BiometricSecuritySim k =
      ([r1, r2, r3, UserNotFound ''unknown_user''], scanNearbyDevices BiometricSecuritySim, k')"
proof -
  define s0 where "s0 = scanNearbyDevices BiometricSecuritySim"
  have u: "userDatabase s0 ''unknown_user'' = None"
    by (simp add: s0_def scanNearbyDevices_def userDatabase_init)
  obtain r1 k1 where a1: "authenticateUser coin s0 k ''thabo'' = (r1, s0, k1)"
    using authenticateUser_sim [of coin s0 k "''thabo''"]
    by (cases "authenticateUser coin s0 k ''thabo''") auto
  obtain r2 k2 where a2: "authenticateUser coin s0 k1 ''matseliso'' = (r2, s0, k2)"
    using authenticateUser_sim [of coin s0 k1 "''matseliso''"]
    by (cases "authenticateUser coin s0 k1 ''matseliso''") auto
  obtain r3 k3 where a3: "authenticateUser coin s0 k2 ''ntate_john'' = (r3, s0, k3)"
    using authenticateUser_sim [of coin s0 k2 "''ntate_john''"]
    by (cases "authenticateUser coin s0 k2 ''ntate_john''") auto
  have "testUserAuthentication coin BiometricSecuritySim k =
          ([r1, r2, r3, UserNotFound ''unknown_user''], s0, k3)"
    by (simp add: testUserAuthentication_def s0_def [symmetric] a1 a2 a3
        authenticateUser_absent [OF u])
  then show ?thesis
    unfolding s0_def [symmetric] by blast
qed

text \<open>
  C4. For every user whose profile is in the table, \<^verbatim>\<open>authenticateUser\<close> reports:
  success by Voice with the trusted-environment remark when the voice check succeeds and
  the environment is trusted; success by Voice without remark when only the voice check
  succeeds; otherwise the answer of the PIN check, by PIN. The environment is trusted
  exactly when some trusted device of the profile is among the nearby devices. The
  report names Voice or PIN and never both. (\<open>coin k\<close> is the voice check's answer,
  \<open>coin (Suc k)\<close> the PIN check's, which is asked only on the fallback path.)
\<close>

theorem authenticateUser_outcome:
  assumes "userDatabase s userId = Some profile"
  shows "(isTrustedEnvironment s profile \<longleftrightarrow>
            (\<exists>d \<in> set (profileTrustedDevices profile). d \<in> set (nearbyDevices s)))
         \<and> authenticateUser coin s k userId =
             (if coin k \<and> isTrustedEnvironment s profile
              then (AuthReport userId True ''Voice'' '' (Trusted Environment)'', s, Suc k)
              else if coin k
              then (AuthReport userId True ''Voice'' [], s, Suc k)
              else (AuthReport userId (coin (Suc k)) ''PIN'' [], s, Suc (Suc k)))
         \<and> fst (authenticateUser coin s k userId) \<noteq> UserNotFound userId
         \<and> (authMethod (fst (authenticateUser coin s k userId)) = ''Voice''
              \<or> authMethod (fst (authenticateUser coin s k userId)) = ''PIN'')
         \<and> \<not> (authMethod (fst (authenticateUser coin s k userId)) = ''Voice''
              \<and> authMethod (fst (authenticateUser coin s k userId)) = ''PIN'')"
proof -
  note found = authenticateUser_found [OF assms, of coin k]
  have "fst (authenticateUser coin s k userId) \<noteq> UserNotFound userId"
    unfolding found by simp
  moreover have "authMethod (fst (authenticateUser coin s k userId)) = ''Voice''
              \<or> authMethod (fst (authenticateUser coin s k userId)) = ''PIN''"
    unfolding found by simp
  moreover have "\<not> (authMethod (fst (authenticateUser coin s k userId)) = ''Voice''
              \<and> authMethod (fst (authenticateUser coin s k userId)) = ''PIN'')"
    by simp
  ultimately show ?thesis
    using found isTrustedEnvironment_iff [of s profile] by blast
qed

theorem authenticateUser_outcome_witness:
  "userDatabase (scanNearbyDevices BiometricSecuritySim) ''matseliso'' =
     Some \<lparr>voicePrintHash = ''voice_hash_5678'', pin = ''1234'',
           profileTrustedDevices = [''office_wifi'']\<rparr>
   \<and> authenticateUser (\<lambda>k. k = 0) (scanNearbyDevices BiometricSecuritySim) 0 ''matseliso'' =
       (AuthReport ''matseliso'' True ''Voice'' '' (Trusted Environment)'',
        scanNearbyDevices BiometricSecuritySim, 1)
   \<and> authenticateUser (\<lambda>k. k = 1) (scanNearbyDevices BiometricSecuritySim) 0 ''matseliso'' =
       (AuthReport ''matseliso'' True ''PIN'' [], scanNearbyDevices BiometricSecuritySim, 2)"
proof -
  have h: "userDatabase (scanNearbyDevices BiometricSecuritySim) ''matseliso'' =
     Some \<lparr>voicePrintHash = ''voice_hash_5678'', pin = ''1234'',
           profileTrustedDevices = [''office_wifi'']\<rparr>"
    by (simp add: scanNearbyDevices_def userDatabase_init)
  have n: "nearbyDevices (scanNearbyDevices BiometricSecuritySim) =
             [''home_bt'', ''unknown_device'', ''office_wifi'', ''car_bt'']"
    by (simp add: scanNearbyDevices_def)
  show ?thesis
    using h authenticateUser_outcome [OF h, of "\<lambda>k. k = 0" 0]
      authenticateUser_outcome [OF h, of "\<lambda>k. k = 1" 0]
    by (simp add: n)
qed

text \<open>
  C5. For every user identifier that is not in the profile table, \<^verbatim>\<open>authenticateUser\<close>
  reports not-found at once: no random check is performed (the number of checks stays
  \<open>k\<close> and the answer does not depend on \<open>coin\<close>), and the simulator is returned as it
  was, so the request that follows is served exactly as if this one had not been made.
  \<open>unknown_user\<close> is such an identifier on the constructed simulator, and
  \<^verbatim>\<open>testUserAuthentication\<close>, which ends with it, runs to its end with the not-found
  report as its fourth line.
\<close>

theorem authenticateUser_not_found:
  assumes "userDatabase s userId = None"
  shows "authenticateUser coin s k userId = (UserNotFound userId, s, k)
         \<and> authenticateUser coin' s k userId = authenticateUser coin s k userId
         \<and> authenticateUser coin (fst (snd (authenticateUser coin s k userId)))
              (snd (snd (authenticateUser coin s k userId))) next_user =
             authenticateUser coin s k next_user
         \<and> userDatabase BiometricSecuritySim ''unknown_user'' = None
         \<and> (\<exists>r1 r2 r3 k'. testUserAuthentication coin BiometricSecuritySim k =
              ([r1, r2, r3, UserNotFound ''unknown_user''],
               scanNearbyDevices BiometricSecuritySim, k'))"
proof -
  have "userDatabase BiometricSecuritySim ''unknown_user'' = None"
    by (simp add: userDatabase_init)
  then show ?thesis
    using testUserAuthentication_unknown [of coin k]
    by (simp add: authenticateUser_absent [OF assms])
qed

theorem authenticateUser_not_found_witness:
  "userDatabase BiometricSecuritySim ''unknown_user'' = None
   \<and> authenticateUser (\<lambda>k. True) BiometricSecuritySim 0 ''unknown_user'' =
       (UserNotFound ''unknown_user'', BiometricSecuritySim, 0)"
proof -
  have h: "userDatabase BiometricSecuritySim ''unknown_user'' = None"
    by (simp add: userDatabase_init)
  from authenticateUser_not_found [OF h, of "\<lambda>k. True" 0] h
  show ?thesis by blast
qed

section \<open>Stored tables after an operation\<close>

lemma scenarioLoop_unchanged:
  "\<exists>out. scenarioLoop IntelligentConnectivitySim scenarios dis i =
           Inr (out, IntelligentConnectivitySim)"
proof (induction scenarios arbitrary: i)
  case Nil
  show ?case by simp
next
  case (Cons scenario rest)
  obtain lines where
    "testEnvironment IntelligentConnectivitySim scenario (dis i) =
       Inr (lines, IntelligentConnectivitySim)"
    using testEnvironment_unchanged by blast
  moreover obtain others where
    "scenarioLoop IntelligentConnectivitySim rest dis (Suc i) =
       Inr (others, IntelligentConnectivitySim)"
    using Cons.IH by blast
  ultimately show ?case by simp
qed

lemma frameLoop_tables:
  "keywordModels (snd (frameLoop ops s rnd i n)) = keywordModels s
   \<and> RESPONSE_THRESHOLD (snd (frameLoop ops s rnd i n)) = RESPONSE_THRESHOLD s
   \<and> BUFFER_SIZE (snd (frameLoop ops s rnd i n)) = BUFFER_SIZE s"
proof (induction n arbitrary: s i)
  case 0
  show ?case by simp
next
  case (Suc n)
  from Suc.IH [of "simulateAudioCapture s (fst (rnd i))" "Suc i"]
  show ?case
    by (simp add: Let_def split_beta simulateAudioCapture_def)
qed

lemma testUserAuthentication_tables:
  "userDatabase (fst (snd (testUserAuthentication coin b k))) = userDatabase b"
proof -
  define s0 where "s0 = scanNearbyDevices b"
  obtain r1 k1 where a1: "authenticateUser coin s0 k ''thabo'' = (r1, s0, k1)"
    using authenticateUser_sim [of coin s0 k "''thabo''"]
    by (cases "authenticateUser coin s0 k ''thabo''") auto
  obtain r2 k2 where a2: "authenticateUser coin s0 k1 ''matseliso'' = (r2, s0, k2)"
    using authenticateUser_sim [of coin s0 k1 "''matseliso''"]
    by (cases "authenticateUser coin s0 k1 ''matseliso''") auto
  obtain r3 k3 where a3: "authenticateUser coin s0 k2 ''ntate_john'' = (r3, s0, k3)"
    using authenticateUser_sim [of coin s0 k2 "''ntate_john''"]
    by (cases "authenticateUser coin s0 k2 ''ntate_john''") auto
  obtain r4 k4 where a4: "authenticateUser coin s0 k3 ''unknown_user'' = (r4, s0, k4)"
    using authenticateUser_sim [of coin s0 k3 "''unknown_user''"]
    by (cases "authenticateUser coin s0 k3 ''unknown_user''") auto
  have "fst (snd (testUserAuthentication coin b k)) = s0"
    by (simp add: testUserAuthentication_def s0_def [symmetric] a1 a2 a3 a4)
  then show ?thesis by (simp add: s0_def scanNearbyDevices_def)
qed

text \<open>
  C8. The stored tables stay as they were populated at startup in every evaluator
  operation. \<^verbatim>\<open>applyPolicy\<close> returns the simulator (trusted devices and policy table)
  exactly as it was for each of the four tier names, and in general whenever the tier
  name is a key of the policy table. \<^verbatim>\<open>testEnvironment\<close>, which runs
  \<^verbatim>\<open>evaluateTrustLevel\<close>, \<^verbatim>\<open>applyPolicy\<close> and \<^verbatim>\<open>makeConnectivityDecisions\<close>, and
  \<^verbatim>\<open>testMultipleScenarios\<close> end with the constructed simulator unchanged for every
  location and every outcome of the random scans. \<^verbatim>\<open>authenticateUser\<close>, which runs
  \<^verbatim>\<open>isTrustedEnvironment\<close> and the random checks, returns the biometric simulator
  unchanged for every identifier, and \<^verbatim>\<open>testUserAuthentication\<close> leaves the user table
  as it was. The frame loops of the voice simulator, which run \<^verbatim>\<open>matchKeywords\<close> and
  \<^verbatim>\<open>computeSimilarity\<close>, leave the keyword models as they were.
\<close>

theorem tables_unchanged:
  "(tier \<in> {''home_trusted'', ''public_trusted'', ''untrusted'', ''emergency''} \<longrightarrow>
      snd (applyPolicy IntelligentConnectivitySim tier location) = IntelligentConnectivitySim)
   \<and> (policyRules s trustLevel \<noteq> None \<longrightarrow> snd (applyPolicy s trustLevel location) = s)
   \<and> (\<exists>lines. testEnvironment IntelligentConnectivitySim location' dis =
                  Inr (lines, IntelligentConnectivitySim))
   \<and> (\<exists>out. testMultipleScenarios IntelligentConnectivitySim dis' =
                Inr (out, IntelligentConnectivitySim))
   \<and> fst (snd (authenticateUser coin b k userId)) = b
   \<and> userDatabase (fst (snd (testUserAuthentication coin b k))) = userDatabase b
   \<and> keywordModels (snd (testRealTimeProcessing ops v rnd)) = keywordModels v
   \<and> keywordModels (snd (testKeywordDetection ops v rnd)) = keywordModels v"
proof -
  have 1: "tier \<in> {''home_trusted'', ''public_trusted'', ''untrusted'', ''emergency''} \<longrightarrow>
      snd (applyPolicy IntelligentConnectivitySim tier location) = IntelligentConnectivitySim"
    using applyPolicy_unchanged_iff [of IntelligentConnectivitySim tier location]
    by (auto simp: policyRules_init)
  have 2: "policyRules s trustLevel \<noteq> None \<longrightarrow> snd (applyPolicy s trustLevel location) = s"
    using applyPolicy_unchanged_iff [of s trustLevel location] by blast
  have 3: "\<exists>lines. testEnvironment IntelligentConnectivitySim location' dis =
                  Inr (lines, IntelligentConnectivitySim)"
    by (rule testEnvironment_unchanged)
  have 4: "\<exists>out. testMultipleScenarios IntelligentConnectivitySim dis' =
                Inr (out, IntelligentConnectivitySim)"
    unfolding testMultipleScenarios_def by (rule scenarioLoop_unchanged)
  have 5: "fst (snd (authenticateUser coin b k userId)) = b"
    by (rule authenticateUser_sim)
  have 6: "userDatabase (fst (snd (testUserAuthentication coin b k))) = userDatabase b"
    by (rule testUserAuthentication_tables)
  have 7: "keywordModels (snd (testRealTimeProcessing ops v rnd)) = keywordModels v"
    by (simp add: testRealTimeProcessing_def frameLoop_tables)
  have 8: "keywordModels (snd (testKeywordDetection ops v rnd)) = keywordModels v"
    by (simp add: testKeywordDetection_def frameLoop_tables)
  from 1 2 3 4 5 6 7 8 show ?thesis by blast
qed



theorem tables_unchanged_witness:
  "''untrusted'' \<in> {''home_trusted'', ''public_trusted'', ''untrusted'', ''emergency''}
   \<and> policyRules IntelligentConnectivitySim ''emergency'' \<noteq> None
   \<and> snd (applyPolicy IntelligentConnectivitySim ''untrusted'' ''Airport'') =
       IntelligentConnectivitySim
   \<and> snd (applyPolicy IntelligentConnectivitySim ''emergency'' ''Rural Area'') =
       IntelligentConnectivitySim"
proof -
  have t: "''untrusted'' \<in> {''home_trusted'', ''public_trusted'', ''untrusted'', ''emergency''}"
    by simp
  have h: "policyRules IntelligentConnectivitySim ''emergency'' \<noteq> None"
    by (simp add: policyRules_init)
  note first = tables_unchanged
    [where tier = "''untrusted''" and location = "''Airport''", THEN conjunct1]
  note second = tables_unchanged
    [where s = IntelligentConnectivitySim and trustLevel = "''emergency''"
       and location = "''Rural Area''", THEN conjunct2, THEN conjunct1]
  from t h first second show ?thesis by blast
qed

section \<open>Properties of the voice simulator\<close>

lemma initializeLoop_3: "initializeLoop ops 3 models = models"
  by (subst initializeLoop.simps) simp

lemma initializeLoop_2:
  "initializeLoop ops 2 models =
     models @ [replicate 256 (f_mul ops (f_tenth ops) (f_of_int ops 3))]"
  by (subst initializeLoop.simps) (simp add: initializeLoop_3)

lemma initializeLoop_1:
  "initializeLoop ops 1 models =
     models @ [replicate 256 (f_mul ops (f_tenth ops) (f_of_int ops 2)),
               replicate 256 (f_mul ops (f_tenth ops) (f_of_int ops 3))]"
  by (subst initializeLoop.simps) (simp add: initializeLoop_2)

lemma initializeLoop_0:
  "initializeLoop ops 0 models =
     models @ [replicate 256 (f_mul ops (f_tenth ops) (f_of_int ops 1)),
               replicate 256 (f_mul ops (f_tenth ops) (f_of_int ops 2)),
               replicate 256 (f_mul ops (f_tenth ops) (f_of_int ops 3))]"
  by (subst initializeLoop.simps) (simp add: initializeLoop_1)

lemma keywordModels_init:
  "keywordModels (VoiceRecognitionSim ops) =
     [replicate 256 (f_mul ops (f_tenth ops) (f_of_int ops 1)),
      replicate 256 (f_mul ops (f_tenth ops) (f_of_int ops 2)),
      replicate 256 (f_mul ops (f_tenth ops) (f_of_int ops 3))]"
  by (simp add: VoiceRecognitionSim_def initializeKeywordModels_def initializeLoop_0)

lemma RESPONSE_THRESHOLD_init:
  "RESPONSE_THRESHOLD (VoiceRecognitionSim ops) = f_threshold ops"
  by (simp add: VoiceRecognitionSim_def initializeKeywordModels_def)

lemma matchLoop_iff:
  "matchLoop ops threshold features models \<longleftrightarrow>
     (\<exists>model \<in> set models. f_gt ops (computeSimilarity ops features model) threshold)"
  by (induction models) (auto simp: Let_def)

lemma dotLoop_run:
  "dotLoop ops a b i acc =
     foldl (\<lambda>s j. f_add ops s (f_mul ops (a ! j) (b ! j))) acc [i..<similarityDivisor a b]"
proof (induction ops a b i acc rule: dotLoop.induct)
  case (1 ops a b i similarity)
  show ?case
  proof (cases "i < similarityDivisor a b")
    case True
    then show ?thesis
      using 1 by (subst dotLoop.simps) (simp add: upt_conv_Cons)
  next
    case False
    then show ?thesis by (subst dotLoop.simps) simp
  qed
qed












text \<open>
  C6. For every feature vector, \<^verbatim>\<open>matchKeywords\<close> returns true if and only if some
  keyword model's similarity to the features is greater (\<^verbatim>\<open>>\<close>, strictly) than
  \<^verbatim>\<open>RESPONSE_THRESHOLD\<close>, which the constructor sets to the literal \<^verbatim>\<open>0.85f\<close>. A model
  above the threshold, with none before it above, makes the result true whatever models
  follow it; when no model is above the threshold the result is false. This holds for
  whatever the float operations compute.
\<close>

theorem matchKeywords_threshold:
  "(matchKeywords ops s features \<longleftrightarrow>
      (\<exists>model \<in> set (keywordModels s).
         f_gt ops (computeSimilarity ops features model) (RESPONSE_THRESHOLD s)))
   \<and> RESPONSE_THRESHOLD (VoiceRecognitionSim ops) = f_threshold ops
   \<and> (f_gt ops (computeSimilarity ops features model) (RESPONSE_THRESHOLD s) \<longrightarrow>
        matchKeywords ops (s\<lparr>keywordModels := pre @ model # post\<rparr>) features)
   \<and> ((\<forall>model \<in> set (keywordModels s).
         \<not> f_gt ops (computeSimilarity ops features model) (RESPONSE_THRESHOLD s)) \<longrightarrow>
        \<not> matchKeywords ops s features)"
  by (auto simp: matchKeywords_def matchLoop_iff RESPONSE_THRESHOLD_init)

theorem matchKeywords_threshold_witness:
  "matchKeywords exact_ops (VoiceRecognitionSim exact_ops) [10]
   \<and> \<not> matchKeywords exact_ops (VoiceRecognitionSim exact_ops) [17 / 6]
   \<and> f_gt exact_ops (computeSimilarity exact_ops [5] (replicate 256 (2 / 10)))
        (RESPONSE_THRESHOLD (VoiceRecognitionSim exact_ops))
   \<and> matchKeywords exact_ops
        ((VoiceRecognitionSim exact_ops)
           \<lparr>keywordModels := [replicate 256 (1 / 10)] @ replicate 256 (2 / 10) # [[]]\<rparr>) [5]"
proof -
  have m: "keywordModels (VoiceRecognitionSim exact_ops) =
             [replicate 256 (1 / 10), replicate 256 (2 / 10), replicate 256 (3 / 10)]"
    by (simp add: keywordModels_init exact_ops_def)
  have t: "RESPONSE_THRESHOLD (VoiceRecognitionSim exact_ops) = 85 / 100"
    by (simp add: RESPONSE_THRESHOLD_init exact_ops_def)
  have c: "computeSimilarity exact_ops [x] (replicate 256 w) = \<bar>x * w\<bar>" for x w
    by (simp add: computeSimilarity_def dotLoop_run similarityDivisor_def exact_ops_def)
  have g: "f_gt exact_ops x y \<longleftrightarrow> x > y" for x y
    by (simp add: exact_ops_def)
  have 1: "matchKeywords exact_ops (VoiceRecognitionSim exact_ops) [10]"
    using matchKeywords_threshold [of exact_ops "VoiceRecognitionSim exact_ops" "[10]"]
    by (simp add: m t c g)
  have n: "\<forall>model \<in> set (keywordModels (VoiceRecognitionSim exact_ops)).
             \<not> f_gt exact_ops (computeSimilarity exact_ops [17 / 6] model)
                 (RESPONSE_THRESHOLD (VoiceRecognitionSim exact_ops))"
    by (simp add: m t c g)
  have 2: "\<not> matchKeywords exact_ops (VoiceRecognitionSim exact_ops) [17 / 6]"
    using matchKeywords_threshold [of exact_ops "VoiceRecognitionSim exact_ops" "[17 / 6]"] n
    by blast
  have 3: "f_gt exact_ops (computeSimilarity exact_ops [5] (replicate 256 (2 / 10)))
        (RESPONSE_THRESHOLD (VoiceRecognitionSim exact_ops))"
    by (simp add: t c g)
  have 4: "matchKeywords exact_ops
        ((VoiceRecognitionSim exact_ops)
           \<lparr>keywordModels := [replicate 256 (1 / 10)] @ replicate 256 (2 / 10) # [[]]\<rparr>) [5]"
    using matchKeywords_threshold
            [where ops = exact_ops and s = "VoiceRecognitionSim exact_ops" and features = "[5]"
               and model = "replicate 256 (2 / 10)" and pre = "[replicate 256 (1 / 10)]"
               and post = "[[]]"] 3
    by blast
  from 1 2 3 4 show ?thesis by blast
qed

lemma similarityDivisor_zero: "similarityDivisor a b = 0 \<longleftrightarrow> a = [] \<or> b = []"
  by (auto simp: similarityDivisor_def min_def)

text \<open>
  C10, as stated, fails in its last part: the divisor is \<open>min\<close> of the two lengths, so it
  is zero as soon as one vector is empty. With an empty feature vector and the first
  keyword model (256 entries) the divisor is 0 although the model is not empty.
\<close>

theorem similarityDivisor_one_empty:
  "similarityDivisor [] (keywordModels (VoiceRecognitionSim exact_ops) ! 0) = 0
   \<and> keywordModels (VoiceRecognitionSim exact_ops) ! 0 \<noteq> []"
  by (simp add: keywordModels_init similarityDivisor_def)

text \<open>
  C10, amended. \<^verbatim>\<open>initializeKeywordModels\<close> builds three models, each of length exactly
  256, so for every non-empty feature vector the divisor \<open>min(len(a), len(b))\<close> of each
  \<^verbatim>\<open>computeSimilarity\<close> call made from \<^verbatim>\<open>matchKeywords\<close> is positive; in those calls
  the divisor is zero exactly when the feature vector is empty, and in general it is
  zero exactly when at least one of the two vectors is empty.
\<close>

theorem keywordModels_divisor:
  "length (keywordModels (VoiceRecognitionSim ops)) = 3
   \<and> (\<forall>model \<in> set (keywordModels (VoiceRecognitionSim ops)).
         length model = 256
         \<and> (features \<noteq> [] \<longrightarrow> 0 < similarityDivisor features model)
         \<and> (similarityDivisor features model = 0 \<longleftrightarrow> features = []))
   \<and> (similarityDivisor a b = 0 \<longleftrightarrow> a = [] \<or> b = [])"
proof -
  have "\<forall>model \<in> set (keywordModels (VoiceRecognitionSim ops)). length model = 256"
    by (simp add: keywordModels_init)
  then have "\<forall>model \<in> set (keywordModels (VoiceRecognitionSim ops)).
         length model = 256
         \<and> (features \<noteq> [] \<longrightarrow> 0 < similarityDivisor features model)
         \<and> (similarityDivisor features model = 0 \<longleftrightarrow> features = [])"
    by (auto simp: similarityDivisor_def min_def)
  then show ?thesis
    using similarityDivisor_zero [of a b] by (simp add: keywordModels_init)
qed

theorem keywordModels_divisor_witness:
  "keywordModels (VoiceRecognitionSim exact_ops) ! 2 \<in> set (keywordModels (VoiceRecognitionSim exact_ops))
   \<and> [1 / 2] \<noteq> ([] :: real list)
   \<and> length (keywordModels (VoiceRecognitionSim exact_ops) ! 2) = 256
   \<and> 0 < similarityDivisor [1 / 2] (keywordModels (VoiceRecognitionSim exact_ops) ! 2)"
proof -
  have h: "keywordModels (VoiceRecognitionSim exact_ops) ! 2
             \<in> set (keywordModels (VoiceRecognitionSim exact_ops))"
    by (simp add: keywordModels_init)
  from keywordModels_divisor [of exact_ops "[1 / 2]"] h
  show ?thesis by blast
qed


end
